theory Spec2Isabelle
  imports Main "HOL-Library.Word"
begin

section \<open>Strings and characters of the host language\<close>

text \<open>
  The program is JavaScript. Its strings are modelled as \<^typ>\<open>string\<close>, one
  \<^typ>\<open>char\<close> for one code unit, and the model is exact for ASCII text: a
  character above 127 is carried along as an opaque symbol that is neither a letter, a
  digit, white space nor a dash. The en dash and the em dash that some character classes
  of the source list therefore never occur in the modelled input and are left out of the
  classes below.
\<close>

definition isDigit :: "char \<Rightarrow> bool" where
  "isDigit c = (48 \<le> (of_char c :: nat) \<and> (of_char c :: nat) \<le> 57)"

definition isUpperAZ :: "char \<Rightarrow> bool" where
  "isUpperAZ c = (65 \<le> (of_char c :: nat) \<and> (of_char c :: nat) \<le> 90)"

definition isLowerAZ :: "char \<Rightarrow> bool" where
  "isLowerAZ c = (97 \<le> (of_char c :: nat) \<and> (of_char c :: nat) \<le> 122)"

text \<open>White space of \<^verbatim>\<open>\s\<close> and of \<^verbatim>\<open>trim\<close>: tab, line feed, vertical tab, form feed,
  carriage return and space.\<close>

definition isSpace :: "char \<Rightarrow> bool" where
  "isSpace c = ((9 \<le> (of_char c :: nat) \<and> (of_char c :: nat) \<le> 13) \<or> (of_char c :: nat) = 32)"

definition isWordChar :: "char \<Rightarrow> bool" where
  "isWordChar c = (isDigit c \<or> isUpperAZ c \<or> isLowerAZ c \<or> c = CHR ''_'')"

definition toLowerChar :: "char \<Rightarrow> char" where
  "toLowerChar c = (if isUpperAZ c then char_of (of_char c + (32::nat)) else c)"

definition toUpperChar :: "char \<Rightarrow> char" where
  "toUpperChar c = (if isLowerAZ c then char_of (of_char c - (32::nat)) else c)"

definition toLowerCase :: "string \<Rightarrow> string" where
  "toLowerCase s = map toLowerChar s"

definition toUpperCase :: "string \<Rightarrow> string" where
  "toUpperCase s = map toUpperChar s"

definition trim :: "string \<Rightarrow> string" where
  "trim s = rev (dropWhile isSpace (rev (dropWhile isSpace s)))"

definition startsWith :: "string \<Rightarrow> string \<Rightarrow> bool" where
  "startsWith s p = (take (length p) s = p)"

fun includesStr :: "string \<Rightarrow> string \<Rightarrow> bool" where
  "includesStr [] p = (p = [])"
| "includesStr (c # cs) p = (startsWith (c # cs) p \<or> includesStr cs p)"

fun joinWith :: "string \<Rightarrow> string list \<Rightarrow> string" where
  "joinWith sep [] = []"
| "joinWith sep [x] = x"
| "joinWith sep (x # y # ys) = x @ sep @ joinWith sep (y # ys)"


section \<open>Regular expressions\<close>

text \<open>
  The regular expressions of the source are written as terms of \<open>regex\<close> and run by a
  backtracking matcher in continuation-passing style, the way the language standard
  defines matching: a matcher takes a continuation and a match state and returns the
  first success in priority order. \<open>Rep mn mx r\<close> is the greedy quantifier
  \<^verbatim>\<open>r{mn,mx}\<close> (\<open>mx = None\<close> for no upper bound), \<open>Grp i r\<close> the capturing
  group number \<open>i\<close>, \<open>WordB\<close> is \<^verbatim>\<open>\b\<close>, \<open>Bol\<close> and \<open>Eol\<close> are \<^verbatim>\<open>^\<close> and \<^verbatim>\<open>$\<close>.
  The first argument of the matcher is the \<^verbatim>\<open>i\<close> flag.
\<close>

datatype citem = Ch char | Rng char char | Digit | Space

datatype regex =
    Lit string
  | Cls "citem list"
  | NCls "citem list"
  | Seq regex regex
  | Alt regex regex
  | Rep nat "nat option" regex
  | Grp nat regex
  | WordB
  | Bol
  | Eol

abbreviation Opt :: "regex \<Rightarrow> regex" where
  "Opt r \<equiv> Rep 0 (Some 1) r"

abbreviation Star :: "regex \<Rightarrow> regex" where
  "Star r \<equiv> Rep 0 None r"

abbreviation Plus :: "regex \<Rightarrow> regex" where
  "Plus r \<equiv> Rep 1 None r"

fun Seqs :: "regex list \<Rightarrow> regex" where
  "Seqs [] = Lit []"
| "Seqs [r] = r"
| "Seqs (r # rs) = Seq r (Seqs rs)"

fun item_has :: "citem \<Rightarrow> char \<Rightarrow> bool" where
  "item_has (Ch a) c = (a = c)"
| "item_has (Rng lo hi) c = ((of_char lo :: nat) \<le> of_char c \<and> (of_char c :: nat) \<le> of_char hi)"
| "item_has Digit c = isDigit c"
| "item_has Space c = isSpace c"

text \<open>With the \<^verbatim>\<open>i\<close> flag a character belongs to a class when some member of the class has
  the same upper-case form.\<close>

definition cls_has :: "bool \<Rightarrow> citem list \<Rightarrow> char \<Rightarrow> bool" where
  "cls_has ci items c =
     list_ex (\<lambda>it. item_has it c \<or> (ci \<and> (item_has it (toUpperChar c) \<or> item_has it (toLowerChar c)))) items"

text \<open>A match state: the text already passed (reversed), the text still ahead, and the
  captures so far.\<close>

datatype mstate = MState (before: string) (rest: string) (caps: "nat \<rightharpoonup> string")

fun litMatcher :: "bool \<Rightarrow> string \<Rightarrow> (mstate \<Rightarrow> 'a option) \<Rightarrow> mstate \<Rightarrow> 'a option" where
  "litMatcher ci [] k s = k s"
| "litMatcher ci (a # as) k (MState b [] cp) = None"
| "litMatcher ci (a # as) k (MState b (c # cs) cp) =
     (if a = c \<or> (ci \<and> toUpperChar a = toUpperChar c)
      then litMatcher ci as k (MState (c # b) cs cp) else None)"

fun clsMatcher :: "(char \<Rightarrow> bool) \<Rightarrow> (mstate \<Rightarrow> 'a option) \<Rightarrow> mstate \<Rightarrow> 'a option" where
  "clsMatcher P k (MState b [] cp) = None"
| "clsMatcher P k (MState b (c # cs) cp) = (if P c then k (MState (c # b) cs cp) else None)"

fun decMax :: "nat option \<Rightarrow> nat option" where
  "decMax None = None"
| "decMax (Some n) = Some (n - 1)"

text \<open>
  The quantifier: while \<open>mn\<close> is positive an iteration is mandatory; afterwards an
  iteration that consumes nothing is rejected (matching only moves forward, so an
  iteration that ends where it began is one that made no progress), and the greedy choice
  tries one more iteration before the continuation.
\<close>

function repeatMatcher :: "((mstate \<Rightarrow> 'a option) \<Rightarrow> mstate \<Rightarrow> 'a option) \<Rightarrow> nat \<Rightarrow> nat option
    \<Rightarrow> (mstate \<Rightarrow> 'a option) \<Rightarrow> mstate \<Rightarrow> 'a option" where
  "repeatMatcher m mn mx c (MState b r cp) =
     (if mx = Some 0 then c (MState b r cp)
      else if mn \<noteq> 0 then m (\<lambda>y. repeatMatcher m (mn - 1) (decMax mx) c y) (MState b r cp)
      else (case m (\<lambda>y. if length (rest y) < length r
                          then repeatMatcher m 0 (decMax mx) c y else None) (MState b r cp) of
              Some z \<Rightarrow> Some z
            | None \<Rightarrow> c (MState b r cp)))"
  by pat_completeness auto
termination
  by (relation "measures [\<lambda>(m, mn, mx, c, x). mn, \<lambda>(m, mn, mx, c, x). length (rest x)]") auto

fun groupMatcher :: "nat \<Rightarrow> ((mstate \<Rightarrow> 'a option) \<Rightarrow> mstate \<Rightarrow> 'a option)
    \<Rightarrow> (mstate \<Rightarrow> 'a option) \<Rightarrow> mstate \<Rightarrow> 'a option" where
  "groupMatcher i m k (MState b r cp) =
     m (\<lambda>y. k (MState (before y) (rest y) ((caps y)(i \<mapsto> take (length r - length (rest y)) r))))
       (MState b r cp)"

fun isWordAt :: "string \<Rightarrow> bool" where
  "isWordAt [] = False"
| "isWordAt (c # cs) = isWordChar c"

fun assertMatcher :: "(mstate \<Rightarrow> bool) \<Rightarrow> (mstate \<Rightarrow> 'a option) \<Rightarrow> mstate \<Rightarrow> 'a option" where
  "assertMatcher P k s = (if P s then k s else None)"

primrec rmatch :: "bool \<Rightarrow> regex \<Rightarrow> (mstate \<Rightarrow> 'a option) \<Rightarrow> mstate \<Rightarrow> 'a option" where
  "rmatch ci (Lit w) = litMatcher ci w"
| "rmatch ci (Cls items) = clsMatcher (cls_has ci items)"
| "rmatch ci (NCls items) = clsMatcher (\<lambda>c. \<not> cls_has ci items c)"
| "rmatch ci (Seq r1 r2) = (\<lambda>k. rmatch ci r1 (rmatch ci r2 k))"
| "rmatch ci (Alt r1 r2) =
     (\<lambda>k s. case rmatch ci r1 k s of Some z \<Rightarrow> Some z | None \<Rightarrow> rmatch ci r2 k s)"
| "rmatch ci (Rep mn mx r) = repeatMatcher (rmatch ci r) mn mx"
| "rmatch ci (Grp i r) = groupMatcher i (rmatch ci r)"
| "rmatch ci WordB = assertMatcher (\<lambda>s. isWordAt (before s) \<noteq> isWordAt (rest s))"
| "rmatch ci Bol = assertMatcher (\<lambda>s. before s = [])"
| "rmatch ci Eol = assertMatcher (\<lambda>s. rest s = [])"

text \<open>The result of a successful match: where it starts, the matched text, the captures
  (an absent group is \<open>None\<close>, as \<^verbatim>\<open>undefined\<close>), and the state at its end.\<close>

record jsmatch =
  m_index :: nat
  m_text :: string
  m_groups :: "nat \<rightharpoonup> string"
  m_before :: string
  m_after :: string

text \<open>\<^verbatim>\<open>str.match(re)\<close> without the \<^verbatim>\<open>g\<close> flag: the leftmost match, tried at every start
  position from the current one to the end of the text.\<close>

fun execFrom :: "bool \<Rightarrow> regex \<Rightarrow> string \<Rightarrow> string \<Rightarrow> jsmatch option" where
  "execFrom ci re b [] =
     (case rmatch ci re Some (MState b [] Map.empty) of
        Some y \<Rightarrow> Some \<lparr>m_index = length b, m_text = [], m_groups = caps y,
                       m_before = before y, m_after = rest y\<rparr>
      | None \<Rightarrow> None)"
| "execFrom ci re b (c # cs) =
     (case rmatch ci re Some (MState b (c # cs) Map.empty) of
        Some y \<Rightarrow> Some \<lparr>m_index = length b,
                       m_text = take (length (c # cs) - length (rest y)) (c # cs),
                       m_groups = caps y, m_before = before y, m_after = rest y\<rparr>
      | None \<Rightarrow> execFrom ci re (c # b) cs)"

definition jsMatch :: "bool \<Rightarrow> regex \<Rightarrow> string \<Rightarrow> jsmatch option" where
  "jsMatch ci re s = execFrom ci re [] s"

text \<open>\<^verbatim>\<open>str.replace(re, rep)\<close> with the \<^verbatim>\<open>g\<close> flag and a replacement text without
  \<^verbatim>\<open>$\<close> patterns. After an empty match the scan copies one character and moves on.\<close>

function replaceFrom :: "bool \<Rightarrow> regex \<Rightarrow> string \<Rightarrow> string \<Rightarrow> string \<Rightarrow> string" where
  "replaceFrom ci re rep b [] =
     (case rmatch ci re Some (MState b [] Map.empty) of Some y \<Rightarrow> rep | None \<Rightarrow> [])"
| "replaceFrom ci re rep b (c # cs) =
     (case rmatch ci re Some (MState b (c # cs) Map.empty) of
        Some y \<Rightarrow>
          (if length (rest y) < length (c # cs)
           then rep @ replaceFrom ci re rep (before y) (rest y)
           else rep @ c # replaceFrom ci re rep (c # b) cs)
      | None \<Rightarrow> c # replaceFrom ci re rep (c # b) cs)"
  by pat_completeness auto
termination
  by (relation "measure (\<lambda>(ci, re, rep, b, r). length r)") auto

definition jsReplaceAll :: "bool \<Rightarrow> regex \<Rightarrow> string \<Rightarrow> string \<Rightarrow> string" where
  "jsReplaceAll ci re rep s = replaceFrom ci re rep [] s"

text \<open>
  \<^verbatim>\<open>str.split(re)\<close> for a separator without capturing groups: the separator is tried at
  each position \<open>q\<close> of the text; a match that ends at the start \<open>p\<close> of the current piece
  is skipped, any other match closes the piece and starts the next one at its end. \<open>cur\<close>
  is the current piece, reversed.
\<close>

function splitFrom :: "bool \<Rightarrow> regex \<Rightarrow> string \<Rightarrow> string \<Rightarrow> string \<Rightarrow> string list" where
  "splitFrom ci re cur b [] = [rev cur]"
| "splitFrom ci re cur b (c # cs) =
     (case rmatch ci re Some (MState b (c # cs) Map.empty) of
        Some y \<Rightarrow>
          (if length (rest y) < length (c # cs)
           then rev cur # splitFrom ci re [] (before y) (rest y)
           else if cur = [] then splitFrom ci re [c] (c # b) cs
           else rev cur # splitFrom ci re [c] (c # b) cs)
      | None \<Rightarrow> splitFrom ci re (c # cur) (c # b) cs)"
  by pat_completeness auto
termination
  by (relation "measure (\<lambda>(ci, re, cur, b, r). length r)") auto

definition jsSplit :: "bool \<Rightarrow> regex \<Rightarrow> string \<Rightarrow> string list" where
  "jsSplit ci re s =
     (if s = [] then (case rmatch ci re Some (MState [] [] Map.empty) of
                        Some y \<Rightarrow> [] | None \<Rightarrow> [[]])
      else splitFrom ci re [] [] s)"

text \<open>\<^verbatim>\<open>str.match(re)\<close> with the \<^verbatim>\<open>g\<close> flag: the texts of all successive matches; the
  empty list stands for \<^verbatim>\<open>null\<close>.\<close>

function matchAllFrom :: "bool \<Rightarrow> regex \<Rightarrow> string \<Rightarrow> string \<Rightarrow> string list" where
  "matchAllFrom ci re b r =
     (case execFrom ci re b r of
        None \<Rightarrow> []
      | Some m \<Rightarrow>
          (if length (m_after m) < length r
           then m_text m # matchAllFrom ci re (m_before m) (m_after m)
           else (case m_after m of [] \<Rightarrow> [m_text m]
                 | c # cs \<Rightarrow> if length cs < length r
                             then m_text m # matchAllFrom ci re (c # m_before m) cs
                             else [m_text m])))"
  by pat_completeness auto
termination
  by (relation "measure (\<lambda>(ci, re, b, r). length r)") auto

definition jsMatchAll :: "bool \<Rightarrow> regex \<Rightarrow> string \<Rightarrow> string list" where
  "jsMatchAll ci re s = matchAllFrom ci re [] s"


section \<open>The day-token mapper (parser.js, parseDays)\<close>

datatype daycode = SU | MO | TU | WE | TH | FR | SA

text \<open>The table \<^verbatim>\<open>dayMap\<close>, in the order of its entries: the loop over
  \<^verbatim>\<open>Object.entries(dayMap)\<close> visits them in this order.\<close>

definition dayMap :: "(string \<times> daycode) list" where
  "dayMap =
    [(''m'', MO), (''mo'', MO), (''mon'', MO), (''monday'', MO),
     (''t'', TU), (''tu'', TU), (''tue'', TU), (''tues'', TU), (''tuesday'', TU),
     (''w'', WE), (''we'', WE), (''wed'', WE), (''wednesday'', WE),
     (''th'', TH), (''thu'', TH), (''thur'', TH), (''thurs'', TH), (''thursday'', TH), (''r'', TH),
     (''f'', FR), (''fri'', FR), (''friday'', FR),
     (''s'', SA), (''sa'', SA), (''sat'', SA), (''saturday'', SA),
     (''su'', SU), (''sun'', SU), (''sunday'', SU)]"

text \<open>The test of the inner loop:
  \<^verbatim>\<open>token === key || (token.length > 1 && token.startsWith(key))\<close>.\<close>

definition tokenMatches :: "string \<Rightarrow> string \<Rightarrow> bool" where
  "tokenMatches token key = (token = key \<or> (1 < length token \<and> startsWith token key))"

text \<open>The inner loop: the first entry whose key matches decides, then \<^verbatim>\<open>break\<close>.\<close>

fun lookupDay :: "(string \<times> daycode) list \<Rightarrow> string \<Rightarrow> daycode option" where
  "lookupDay [] token = None"
| "lookupDay ((key, val) # es) token =
     (if tokenMatches token key then Some val else lookupDay es token)"

text \<open>The outer loop over the tokens, with the array \<^verbatim>\<open>days\<close> as accumulator.\<close>

fun daysLoop :: "daycode list \<Rightarrow> string list \<Rightarrow> daycode list" where
  "daysLoop days [] = days"
| "daysLoop days (token # tokens) =
     daysLoop (case lookupDay dayMap token of
                 None \<Rightarrow> days
               | Some val \<Rightarrow> if List.member days val then days else days @ [val]) tokens"

definition dayTokens :: "string \<Rightarrow> string list" where
  "dayTokens daysStr =
     jsSplit False (Plus (Cls [Space]))
       (jsReplaceAll False (Lit ''.'') []
          (jsReplaceAll False (Cls [Ch CHR '','', Ch CHR ''|'']) '' '' (toLowerCase daysStr)))"

definition parseDays :: "string \<Rightarrow> daycode list" where
  "parseDays daysStr = (if daysStr = [] then [] else daysLoop [] (dayTokens daysStr))"

text \<open>The list a first-seen, duplicate-free reading of a sequence of codes denotes: every
  code once, at the place of its first occurrence.\<close>

definition firstSeen :: "'a list \<Rightarrow> 'a list" where
  "firstSeen xs = rev (remdups (rev xs))"


section \<open>Numbers in text\<close>

text \<open>\<^verbatim>\<open>parseInt(s, 10)\<close> on a text of decimal digits. The source applies it to captures of
  \<^verbatim>\<open>\d\<close> groups only, so no other text reaches it.\<close>

definition parseInt10 :: "string \<Rightarrow> int" where
  "parseInt10 s = foldl (\<lambda>a c. 10 * a + (of_char c - 48)) 0 s"

text \<open>
  The test \<^verbatim>\<open>!isNaN(s) && parseFloat(s) > 20000\<close> reads the text as a number. The model
  covers the numbers written as decimal digits with optional white space around them:
  \<open>numericValue\<close> is their value. Signs, fractions, exponents, hexadecimal literals and
  \<^verbatim>\<open>Infinity\<close>, which the host language also reads as numbers, are outside the model.
\<close>

definition numericValue :: "string \<Rightarrow> int option" where
  "numericValue s =
     (let t = trim s in if t \<noteq> [] \<and> list_all isDigit t then Some (parseInt10 t) else None)"

text \<open>The capture of group \<open>i\<close> of a match (the groups read below always took part).\<close>

definition grp :: "jsmatch \<Rightarrow> nat \<Rightarrow> string" where
  "grp m i = (case m_groups m i of Some s \<Rightarrow> s | None \<Rightarrow> [])"


section \<open>The time normalizer (parser.js, normalizeTime and parseTimeRange)\<close>

record clock =
  hours :: int
  minutes :: int

definition digit :: regex where
  "digit = Cls [Digit]"

definition space :: regex where
  "space = Cls [Space]"

text \<open>\<^verbatim>\<open>/(\d{1,2}):(\d{2})\s*(AM|PM)?/\<close>\<close>

definition clockRe :: regex where
  "clockRe =
     Seqs [Grp 1 (Rep 1 (Some 2) digit), Lit '':'', Grp 2 (Rep 2 (Some 2) digit), Star space,
           Opt (Grp 3 (Alt (Lit ''AM'') (Lit ''PM'')))]"

definition normalizeTime :: "string \<Rightarrow> clock option" where
  "normalizeTime timeStr =
     (if timeStr = [] then None
      else
        let cleaned0 = jsReplaceAll False (Lit ''.'') [] (toUpperCase (trim timeStr));
            cleaned = (if List.member cleaned0 CHR '':'' then cleaned0 else cleaned0 @ '':00'')
        in case jsMatch False clockRe cleaned of
             None \<Rightarrow> None
           | Some m \<Rightarrow>
               let h = parseInt10 (grp m 1);
                   mins = parseInt10 (grp m 2);
                   period = m_groups m 3
               in Some \<lparr>hours = (if period = Some ''PM'' \<and> h \<noteq> 12 then h + 12
                                  else if period = Some ''AM'' \<and> h = 12 then 0
                                  else h),
                         minutes = mins\<rparr>)"

text \<open>\<^verbatim>\<open>\d{1,2}(?::\d{2})?\s*(?:AM|PM|a\.m\.|p\.m\.)?\<close>, one side of a time range.\<close>

definition timeTok :: regex where
  "timeTok =
     Seqs [Rep 1 (Some 2) digit, Opt (Seq (Lit '':'') (Rep 2 (Some 2) digit)), Star space,
           Opt (Alt (Lit ''AM'') (Alt (Lit ''PM'') (Alt (Lit ''a.m.'') (Lit ''p.m.''))))]"

text \<open>\<^verbatim>\<open>\s*[-to]+\s*\<close>, the joint of a range (the dashes beyond ASCII left out).\<close>

definition rangeJoint :: regex where
  "rangeJoint = Seqs [Star space, Plus (Cls [Ch CHR ''-'', Ch CHR ''t'', Ch CHR ''o'']), Star space]"

definition timeRangeRe :: regex where
  "timeRangeRe = Seqs [Grp 1 timeTok, rangeJoint, Grp 2 timeTok]"

definition parseTimeRange :: "string \<Rightarrow> clock option \<times> clock option" where
  "parseTimeRange timeStr =
     (case jsMatch True timeRangeRe timeStr of
        Some m \<Rightarrow> (normalizeTime (grp m 1), normalizeTime (grp m 2))
      | None \<Rightarrow> (None, None))"


section \<open>Calendar arithmetic of the host's Date\<close>

text \<open>
  A Date is a count of days from 1970-01-01 together with a time of day. The functions
  below are the day-number functions of the language standard: \<open>dayFromYear\<close>,
  \<open>yearFromDay\<close> (the largest year that starts on or before the day), the month and the
  day of the month read from the day within the year, the week day (1970-01-01 was a
  Thursday, number 4), and \<open>makeDay\<close>, which accepts any month number and any day number
  and carries the excess over.
\<close>

record cdate =
  year :: int
  month :: int
  day :: int

definition isLeap :: "int \<Rightarrow> bool" where
  "isLeap y = (y mod 4 = 0 \<and> (y mod 100 \<noteq> 0 \<or> y mod 400 = 0))"

definition leapDay :: "int \<Rightarrow> int" where
  "leapDay y = (if isLeap y then 1 else 0)"

definition daysInYear :: "int \<Rightarrow> int" where
  "daysInYear y = 365 + leapDay y"

definition dayFromYear :: "int \<Rightarrow> int" where
  "dayFromYear y = 365 * (y - 1970) + (y - 1969) div 4 - (y - 1901) div 100 + (y - 1601) div 400"

text \<open>Every year starts \<open>daysInYear\<close> days after the one before it; the two searches
  below rest on this.\<close>

lemma div_succ:
  fixes a k :: int
  assumes k: "1 < k"
  shows "(a + 1) div k = a div k + (if (a + 1) mod k = 0 then 1 else 0)"
proof -
  have r: "0 \<le> a mod k" "a mod k < k"
    using k by simp_all
  show ?thesis
  proof (cases "a mod k + 1 < k")
    case True
    have e: "a + 1 = k * (a div k) + (a mod k + 1)"
      by simp
    have "(a + 1) div k = a div k"
      using r True by (intro int_div_pos_eq [OF e]) simp_all
    moreover have "(a + 1) mod k = a mod k + 1"
      using r True by (intro int_mod_pos_eq [OF e]) simp_all
    ultimately show ?thesis
      using r by simp
  next
    case False
    then have f: "a mod k + 1 = k"
      using r by simp
    have "a + 1 = k * (a div k) + (a mod k + 1)"
      by simp
    also have "\<dots> = k * (a div k) + k"
      by (simp only: f)
    also have "\<dots> = k * (a div k + 1) + 0"
      by (simp add: algebra_simps)
    finally have e: "a + 1 = k * (a div k + 1) + 0" .
    have "(a + 1) div k = a div k + 1"
      using k by (intro int_div_pos_eq [OF e]) simp_all
    moreover have "(a + 1) mod k = 0"
      using k by (intro int_mod_pos_eq [OF e]) simp_all
    ultimately show ?thesis
      by simp
  qed
qed

lemma year_shift4: "((y::int) - 1969 + 1) mod 4 = y mod 4"
proof -
  have "y - 1969 + 1 = y + 4 * (-492)" by simp
  then show ?thesis by (metis mod_mult_self2)
qed

lemma year_shift100: "((y::int) - 1901 + 1) mod 100 = y mod 100"
proof -
  have "y - 1901 + 1 = y + 100 * (-19)" by simp
  then show ?thesis by (metis mod_mult_self2)
qed

lemma year_shift400: "((y::int) - 1601 + 1) mod 400 = y mod 400"
proof -
  have "y - 1601 + 1 = y + 400 * (-4)" by simp
  then show ?thesis by (metis mod_mult_self2)
qed

lemma mod100_mod4: "(y::int) mod 100 = 0 \<Longrightarrow> y mod 4 = 0"
proof -
  assume a: "y mod 100 = 0"
  have "y mod 100 mod 4 = y mod 4"
    by (rule mod_mod_cancel) simp
  with a show ?thesis by simp
qed

lemma mod400_mod100: "(y::int) mod 400 = 0 \<Longrightarrow> y mod 100 = 0"
proof -
  assume a: "y mod 400 = 0"
  have "y mod 400 mod 100 = y mod 100"
    by (rule mod_mod_cancel) simp
  with a show ?thesis by simp
qed

lemma year_div4: "((y::int) - 1968) div 4 = (y - 1969) div 4 + (if y mod 4 = 0 then 1 else 0)"
  using div_succ [of 4 "y - 1969"] year_shift4 [of y] by simp

lemma year_div100: "((y::int) - 1900) div 100 = (y - 1901) div 100 + (if y mod 100 = 0 then 1 else 0)"
  using div_succ [of 100 "y - 1901"] year_shift100 [of y] by simp

lemma year_div400: "((y::int) - 1600) div 400 = (y - 1601) div 400 + (if y mod 400 = 0 then 1 else 0)"
  using div_succ [of 400 "y - 1601"] year_shift400 [of y] by simp

lemma leapDay_terms:
  "(if y mod 4 = 0 then 1 else 0) - (if y mod 100 = 0 then 1 else 0)
     + (if y mod 400 = 0 then 1 else 0) = leapDay y"
proof (cases "y mod 4 = 0")
  case False
  have a: "y mod 100 \<noteq> 0"
    using False mod100_mod4 [of y] by auto
  have b: "y mod 400 \<noteq> 0"
    using a mod400_mod100 [of y] by auto
  show ?thesis
    by (simp only: False a b leapDay_def isLeap_def if_False) simp
next
  case c4: True
  show ?thesis
  proof (cases "y mod 100 = 0")
    case False
    have b: "y mod 400 \<noteq> 0"
      using False mod400_mod100 [of y] by auto
    show ?thesis
      by (simp only: c4 False b leapDay_def isLeap_def) simp
  next
    case c100: True
    show ?thesis
      by (cases "y mod 400 = 0") (simp_all only: c4 c100 leapDay_def isLeap_def, simp_all)
  qed
qed

lemma year_regroup:
  "365 * (y - 1969) + (p + a) - (q + b) + (r + c)
     = 365 * (y - 1970) + p - q + r + 365 + (a - b + c)" for y p q r a b c :: int
  by (simp add: algebra_simps)

lemma dayFromYear_next: "dayFromYear (y + 1) = dayFromYear y + daysInYear y"
proof -
  have "dayFromYear (y + 1) =
          365 * (y - 1969) + (y - 1968) div 4 - (y - 1900) div 100 + (y - 1600) div 400"
    by (simp add: dayFromYear_def)
  also have "\<dots> = 365 * (y - 1969)
        + ((y - 1969) div 4 + (if y mod 4 = 0 then 1 else 0))
        - ((y - 1901) div 100 + (if y mod 100 = 0 then 1 else 0))
        + ((y - 1601) div 400 + (if y mod 400 = 0 then 1 else 0))"
    by (simp only: year_div4 year_div100 year_div400)
  also have "\<dots> = dayFromYear y + 365
        + ((if y mod 4 = 0 then 1 else 0) - (if y mod 100 = 0 then 1 else 0)
           + (if y mod 400 = 0 then 1 else 0))"
    unfolding dayFromYear_def by (rule year_regroup)
  also have "\<dots> = dayFromYear y + daysInYear y"
    by (simp only: leapDay_terms daysInYear_def)
  finally show ?thesis .
qed

lemma dayFromYear_less: "dayFromYear y < dayFromYear (y + 1)"
  by (simp add: dayFromYear_next daysInYear_def leapDay_def)

function yearUp :: "int \<Rightarrow> int \<Rightarrow> int" where
  "yearUp n y = (if n < dayFromYear (y + 1) then y else yearUp n (y + 1))"
  by pat_completeness auto
termination
proof (relation "measure (\<lambda>(n, y). nat (n + 1 - dayFromYear (y + 1)))")
  show "wf (measure (\<lambda>(n, y). nat (n + 1 - dayFromYear (y + 1))))"
    by simp
next
  fix n y :: int
  assume "\<not> n < dayFromYear (y + 1)"
  then show "((n, y + 1), (n, y)) \<in> measure (\<lambda>(n, y). nat (n + 1 - dayFromYear (y + 1)))"
    using dayFromYear_less [of "y + 1"] by simp
qed

function yearDown :: "int \<Rightarrow> int \<Rightarrow> int" where
  "yearDown n y = (if dayFromYear y \<le> n then y else yearDown n (y - 1))"
  by pat_completeness auto
termination
proof (relation "measure (\<lambda>(n, y). nat (dayFromYear y - n))")
  show "wf (measure (\<lambda>(n, y). nat (dayFromYear y - n)))"
    by simp
next
  fix n y :: int
  assume "\<not> dayFromYear y \<le> n"
  then show "((n, y - 1), (n, y)) \<in> measure (\<lambda>(n, y). nat (dayFromYear y - n))"
    using dayFromYear_less [of "y - 1"] by simp
qed

definition yearFromDay :: "int \<Rightarrow> int" where
  "yearFromDay n = (if 0 \<le> n then yearUp n 1970 else yearDown n 1970)"

definition dayWithinYear :: "int \<Rightarrow> int" where
  "dayWithinYear n = n - dayFromYear (yearFromDay n)"

text \<open>The day within the year on which month \<open>m\<close> (0 to 11) starts; \<open>l\<close> is 1 in a leap
  year and 0 otherwise.\<close>

definition monthStart :: "int \<Rightarrow> int \<Rightarrow> int" where
  "monthStart l m =
     (if m = 0 then 0 else if m = 1 then 31 else if m = 2 then 59 + l
      else if m = 3 then 90 + l else if m = 4 then 120 + l else if m = 5 then 151 + l
      else if m = 6 then 181 + l else if m = 7 then 212 + l else if m = 8 then 243 + l
      else if m = 9 then 273 + l else if m = 10 then 304 + l else 334 + l)"

definition monthOfDoy :: "int \<Rightarrow> int \<Rightarrow> int" where
  "monthOfDoy l d =
     (if d < 31 then 0 else if d < 59 + l then 1 else if d < 90 + l then 2
      else if d < 120 + l then 3 else if d < 151 + l then 4 else if d < 181 + l then 5
      else if d < 212 + l then 6 else if d < 243 + l then 7 else if d < 273 + l then 8
      else if d < 304 + l then 9 else if d < 334 + l then 10 else 11)"

definition monthFromDay :: "int \<Rightarrow> int" where
  "monthFromDay n = monthOfDoy (leapDay (yearFromDay n)) (dayWithinYear n)"

definition dateFromDay :: "int \<Rightarrow> int" where
  "dateFromDay n =
     dayWithinYear n - monthStart (leapDay (yearFromDay n)) (monthFromDay n) + 1"

definition weekDay :: "int \<Rightarrow> int" where
  "weekDay n = (n + 4) mod 7"

definition makeDay :: "int \<Rightarrow> int \<Rightarrow> int \<Rightarrow> int" where
  "makeDay y m dt =
     (let ym = y + m div 12; mn = m mod 12
      in dayFromYear ym + monthStart (leapDay ym) mn + dt - 1)"

text \<open>The calendar fields of a day number, with the month counted from 1 as the
  program's records do.\<close>

definition dateOfDay :: "int \<Rightarrow> cdate" where
  "dateOfDay n = \<lparr>year = yearFromDay n, month = monthFromDay n + 1, day = dateFromDay n\<rparr>"

text \<open>
  A Date object at midnight is its day number, or \<open>None\<close> for an invalid Date: a time
  more than 100 000 000 days from the epoch is not a time value. The program builds and
  reads its dates in local time; local fields follow the same calendar arithmetic, and
  the model takes local midnight to exist on every day.
\<close>

type_synonym jsdate = "int option"

definition timeClip :: "int \<Rightarrow> jsdate" where
  "timeClip n = (if \<bar>n\<bar> \<le> 100000000 then Some n else None)"

text \<open>\<^verbatim>\<open>new Date(y, m, d)\<close>: a year from 0 to 99 is taken as 1900 + y.\<close>

definition fullYear :: "int \<Rightarrow> int" where
  "fullYear y = (if 0 \<le> y \<and> y \<le> 99 then 1900 + y else y)"

definition newDate :: "int \<Rightarrow> int \<Rightarrow> int \<Rightarrow> jsdate" where
  "newDate y m d = timeClip (makeDay (fullYear y) m d)"

text \<open>\<^verbatim>\<open>c = new Date(date); c.setDate(date.getDate() + i)\<close>\<close>

definition plusDays :: "jsdate \<Rightarrow> int \<Rightarrow> jsdate" where
  "plusDays date i =
     (case date of
        None \<Rightarrow> None
      | Some n \<Rightarrow> timeClip (makeDay (yearFromDay n) (monthFromDay n) (dateFromDay n + i)))"






section \<open>The date normalizer (parser.js, parseDate and parseDateRange)\<close>

text \<open>\<^verbatim>\<open>/(\d{4})-(\d{2})-(\d{2})/\<close>\<close>

definition isoRe :: regex where
  "isoRe = Seqs [Grp 1 (Rep 4 (Some 4) digit), Lit ''-'', Grp 2 (Rep 2 (Some 2) digit), Lit ''-'',
                 Grp 3 (Rep 2 (Some 2) digit)]"

definition letter :: regex where
  "letter = Cls [Rng CHR ''A'' CHR ''Z'', Rng CHR ''a'' CHR ''z'']"

text \<open>\<^verbatim>\<open>/([A-Za-z]{3})[a-z]*\s+(\d{1,2})(?:,?\s+(\d{4}))?/i\<close>\<close>

definition textDateRe :: regex where
  "textDateRe =
     Seqs [Grp 1 (Rep 3 (Some 3) letter), Star (Cls [Rng CHR ''a'' CHR ''z'']), Plus space,
           Grp 2 (Rep 1 (Some 2) digit),
           Opt (Seqs [Opt (Lit '',''), Plus space, Grp 3 (Rep 4 (Some 4) digit)])]"

definition monthNames :: "(string \<times> int) list" where
  "monthNames =
     [(''jan'', 1), (''feb'', 2), (''mar'', 3), (''apr'', 4), (''may'', 5), (''jun'', 6),
      (''jul'', 7), (''aug'', 8), (''sep'', 9), (''oct'', 10), (''nov'', 11), (''dec'', 12)]"

text \<open>The second attempt of \<open>parseDate\<close> applies when the text is a number above 20000;
  \<open>serialOf\<close> is that number.\<close>

definition serialOf :: "string \<Rightarrow> int option" where
  "serialOf dateStr =
     (case numericValue dateStr of
        Some serial \<Rightarrow> if 20000 < serial then Some serial else None
      | None \<Rightarrow> None)"

text \<open>The third attempt: a month name and a day, with or without a year. The first
  argument is the year of the system clock, which the source reads when the text has no
  year.\<close>

definition textDate :: "int \<Rightarrow> string \<Rightarrow> cdate option" where
  "textDate currentYear dateStr =
     (case jsMatch True textDateRe dateStr of
        Some m \<Rightarrow>
          (let monthKey = toLowerCase (grp m 1);
               yr = (case m_groups m 3 of Some y \<Rightarrow> parseInt10 y | None \<Rightarrow> currentYear)
           in case map_of monthNames monthKey of
                Some mo \<Rightarrow> Some \<lparr>year = yr, month = mo, day = parseInt10 (grp m 2)\<rparr>
              | None \<Rightarrow> None)
      | None \<Rightarrow> None)"

text \<open>
  \<open>parseDate\<close>. A serial number is turned into a Date of
  \<open>(serial - 25569) * 86400 * 1000\<close> milliseconds, that is of day number
  \<open>serial - 25569\<close>, and its UTC fields are read. A serial beyond the range of Date makes
  the source build a record of three NaN fields; \<open>cdate\<close> has no such record, and the
  model answers \<open>None\<close> there.
\<close>

definition parseDate :: "int \<Rightarrow> string \<Rightarrow> cdate option" where
  "parseDate currentYear dateStr =
     (if dateStr = [] then None
      else case jsMatch False isoRe dateStr of
        Some m \<Rightarrow> Some \<lparr>year = parseInt10 (grp m 1), month = parseInt10 (grp m 2),
                        day = parseInt10 (grp m 3)\<rparr>
      | None \<Rightarrow>
         (case serialOf dateStr of
            Some serial \<Rightarrow>
              (case timeClip (serial - 25569) of
                 Some n \<Rightarrow> Some (dateOfDay n)
               | None \<Rightarrow> None)
          | None \<Rightarrow> textDate currentYear dateStr))"

text \<open>\<^verbatim>\<open>[A-Za-z]{3}\s+\d{1,2}(?:,?\s+\d{4})?|\d{4}-\d{2}-\d{2}\<close>, one side of a date
  range.\<close>

definition dateTok :: regex where
  "dateTok =
     Alt (Seqs [Rep 3 (Some 3) letter, Plus space, Rep 1 (Some 2) digit,
                Opt (Seqs [Opt (Lit '',''), Plus space, Rep 4 (Some 4) digit])])
         (Seqs [Rep 4 (Some 4) digit, Lit ''-'', Rep 2 (Some 2) digit, Lit ''-'',
                Rep 2 (Some 2) digit])"

definition dateRangeRe :: regex where
  "dateRangeRe = Seqs [Grp 1 dateTok, rangeJoint, Grp 2 dateTok]"

definition parseDateRange :: "int \<Rightarrow> string \<Rightarrow> cdate option \<times> cdate option" where
  "parseDateRange currentYear dateStr =
     (case jsMatch True dateRangeRe dateStr of
        Some m \<Rightarrow> (parseDate currentYear (grp m 1), parseDate currentYear (grp m 2))
      | None \<Rightarrow> (None, None))"


section \<open>Cells and exceptions\<close>

text \<open>
  A cell of the decoded sheet is a text or a number; the model has the integers among the
  numbers. \<open>TypeError\<close> is the exception of calling a text method on a number or of
  reading a property of \<^verbatim>\<open>null\<close>.
\<close>

datatype cell = CStr string | CNum int

datatype error = TypeError


section \<open>The pattern extractor (parser.js, parseSinglePattern and parsePatternWithRegex)\<close>

text \<open>
  A meeting pattern as the extractor returns it. An absent time or date (\<^verbatim>\<open>null\<close> or
  \<^verbatim>\<open>undefined\<close>) is \<open>None\<close>; \<open>p_raw\<close> and \<open>p_error\<close> are the fields that
  \<open>parseMeetingPatterns\<close> adds (\<open>p_error\<close> is \<open>False\<close> where the source leaves the
  property out).
\<close>

record pattern =
  p_days :: "daycode list"
  p_startTime :: "clock option"
  p_endTime :: "clock option"
  p_startDate :: "cdate option"
  p_endDate :: "cdate option"
  p_location :: string
  p_raw :: cell
  p_error :: bool

text \<open>\<^verbatim>\<open>str.split('|')\<close>: the pieces between the occurrences of a one-character
  separator.\<close>

fun splitOn :: "char \<Rightarrow> string \<Rightarrow> string list" where
  "splitOn sep [] = [[]]"
| "splitOn sep (c # cs) =
     (if c = sep then [] # splitOn sep cs
      else (case splitOn sep cs of p # ps \<Rightarrow> (c # p) # ps | [] \<Rightarrow> [[c]]))"

text \<open>\<^verbatim>\<open>/\b(Monday|Tuesday|Wednesday|Thursday|Friday|Saturday|Sunday|Mon|Tue|Wed|Thu|Fri|Sat|Sun|Mo|Tu|We|Th|Fr|Sa|Su)\b/gi\<close>\<close>

fun Alts :: "regex list \<Rightarrow> regex" where
  "Alts [] = Lit []"
| "Alts [r] = r"
| "Alts (r # rs) = Alt r (Alts rs)"

definition dayTokensRe :: regex where
  "dayTokensRe =
     Seqs [WordB,
           Grp 1 (Alts (map Lit
             [''Monday'', ''Tuesday'', ''Wednesday'', ''Thursday'', ''Friday'', ''Saturday'',
              ''Sunday'', ''Mon'', ''Tue'', ''Wed'', ''Thu'', ''Fri'', ''Sat'', ''Sun'',
              ''Mo'', ''Tu'', ''We'', ''Th'', ''Fr'', ''Sa'', ''Su''])),
           WordB]"

text \<open>\<^verbatim>\<open>/\|\s*([^|]+)$/\<close>\<close>

definition locRe :: regex where
  "locRe = Seqs [Lit ''|'', Star space, Grp 1 (Plus (NCls [Ch CHR ''|''])), Eol]"

text \<open>\<^verbatim>\<open>/\b([A-Z0-9]{2,}\s+\d{2,})\b/\<close>\<close>

definition roomRe :: regex where
  "roomRe =
     Seqs [WordB,
           Grp 1 (Seqs [Rep 2 None (Cls [Rng CHR ''A'' CHR ''Z'', Rng CHR ''0'' CHR ''9'']),
                        Plus space, Rep 2 None digit]),
           WordB]"

definition parsePatternWithRegex :: "int \<Rightarrow> string \<Rightarrow> pattern" where
  "parsePatternWithRegex currentYear str =
     (let dateMatch = jsMatch True dateRangeRe str;
          timeMatch = jsMatch True timeRangeRe str;
          dayMatches = jsMatchAll True dayTokensRe str;
          location = (case jsMatch False locRe str of
                        Some m \<Rightarrow> grp m 1
                      | None \<Rightarrow> (case jsMatch False roomRe str of
                                   Some m \<Rightarrow> grp m 1
                                 | None \<Rightarrow> []));
          days = (if dayMatches \<noteq> [] then parseDays (joinWith '' '' dayMatches) else []);
          times = (case timeMatch of
                     Some m \<Rightarrow> parseTimeRange (grp m 1 @ '' - '' @ grp m 2)
                   | None \<Rightarrow> (None, None));
          dates = (case dateMatch of
                     Some m \<Rightarrow> parseDateRange currentYear (grp m 1 @ '' - '' @ grp m 2)
                   | None \<Rightarrow> (None, None))
      in \<lparr>p_days = days, p_startTime = fst times, p_endTime = snd times,
          p_startDate = fst dates, p_endDate = snd dates, p_location = trim location,
          p_raw = CStr [], p_error = False\<rparr>)"

text \<open>The strict attempt of \<open>parseSinglePattern\<close>: the value of \<^verbatim>\<open>result\<close> before the
  fallback, \<open>None\<close> for \<^verbatim>\<open>null\<close>.\<close>

definition strictPattern :: "int \<Rightarrow> string \<Rightarrow> pattern option" where
  "strictPattern currentYear patternStr =
     (if List.member patternStr CHR ''|'' then
        (let parts = map trim (splitOn CHR ''|'' patternStr) in
         if 2 \<le> length parts then
           (let days = parseDays (parts ! 0);
                times = parseTimeRange (parts ! 1);
                dates = (if 2 < length parts then parseDateRange currentYear (parts ! 2)
                         else (None, None));
                loc = (if 3 < length parts then parts ! 3 else [])
            in if 0 < length days
               then Some \<lparr>p_days = days, p_startTime = fst times, p_endTime = snd times,
                          p_startDate = fst dates, p_endDate = snd dates, p_location = loc,
                          p_raw = CStr [], p_error = False\<rparr>
               else None)
         else None)
      else None)"

definition parseSinglePattern :: "int \<Rightarrow> string \<Rightarrow> pattern option" where
  "parseSinglePattern currentYear patternStr =
     (case strictPattern currentYear patternStr of
        Some result \<Rightarrow> Some result
      | None \<Rightarrow> Some (parsePatternWithRegex currentYear patternStr))"


section \<open>Rows and cells (parser.js, parseMeetingPatterns, parseRow, parse)\<close>

text \<open>
  A row of the decoded sheet is an object from column names to cells, kept here as the
  list of its entries in key order (with distinct keys).
\<close>

type_synonym row = "(string \<times> cell) list"

definition truthy :: "cell \<Rightarrow> bool" where
  "truthy c = (case c of CStr s \<Rightarrow> s \<noteq> [] | CNum n \<Rightarrow> n \<noteq> 0)"

text \<open>\<^verbatim>\<open>row[name] || ''\<close>\<close>

definition cellOr :: "row \<Rightarrow> string \<Rightarrow> cell" where
  "cellOr r name = (case map_of r name of
                      Some c \<Rightarrow> if truthy c then c else CStr []
                    | None \<Rightarrow> CStr [])"

definition digitChar :: "int \<Rightarrow> char" where
  "digitChar d = char_of (48 + d)"

function showDigits :: "int \<Rightarrow> string" where
  "showDigits n = (if n < 10 then [digitChar n] else showDigits (n div 10) @ [digitChar (n mod 10)])"
  by pat_completeness auto
termination
  by (relation "measure nat") auto

text \<open>\<^verbatim>\<open>String(n)\<close> for an integer.\<close>

definition showInt :: "int \<Rightarrow> string" where
  "showInt n = (if n < 0 then CHR ''-'' # showDigits (- n) else showDigits n)"

definition cellText :: "cell \<Rightarrow> string" where
  "cellText c = (case c of CStr s \<Rightarrow> s | CNum n \<Rightarrow> showInt n)"

text \<open>\<^verbatim>\<open>/<br\s*\/?>/\<close>\<close>

definition brTag :: regex where
  "brTag = Seqs [Lit ''<br'', Star space, Opt (Lit ''/''), Lit ''>'']"

definition newline :: string where
  "newline = [CHR 0x0A]"

definition crlf :: string where
  "crlf = [CHR 0x0D, CHR 0x0A]"

text \<open>\<^verbatim>\<open>/(?:<br\s*\/?>|\n){2,}|(?:\r\n){2,}|(?:\n\s*\n)/gi\<close>\<close>

definition blockSepRe :: regex where
  "blockSepRe =
     Alt (Rep 2 None (Alt brTag (Lit newline)))
         (Alt (Rep 2 None (Lit crlf)) (Seqs [Lit newline, Star space, Lit newline]))"

definition patternBlocks :: "string \<Rightarrow> string list" where
  "patternBlocks patternsStr =
     (let cleanStr = jsReplaceAll False (Lit ''&amp;'') ''&''
                       (jsReplaceAll False (Lit ''&nbsp;'') '' '' patternsStr)
      in filter (\<lambda>s. 0 < length s)
           (map (\<lambda>s. trim (jsReplaceAll False (Lit newline) '' ''
                              (jsReplaceAll False brTag '' '' s)))
                (jsSplit True blockSepRe cleanStr)))"

definition errorPattern :: "string \<Rightarrow> pattern" where
  "errorPattern block =
     \<lparr>p_days = [], p_startTime = None, p_endTime = None, p_startDate = None, p_endDate = None,
      p_location = [], p_raw = CStr block, p_error = True\<rparr>"

definition parseMeetingPatterns :: "int \<Rightarrow> cell \<Rightarrow> pattern list" where
  "parseMeetingPatterns currentYear patternsStr =
     (case patternsStr of
        CNum n \<Rightarrow> []
      | CStr s \<Rightarrow>
          if s = [] \<or> trim s = [] then []
          else map (\<lambda>block. case parseSinglePattern currentYear block of
                               Some p \<Rightarrow> p\<lparr>p_raw := CStr block\<rparr>
                             | None \<Rightarrow> errorPattern block)
                   (patternBlocks s))"

text \<open>\<open>findColumnValue\<close>: the keys of the row in order, and for each key the aliases in
  order; \<open>None\<close> is \<^verbatim>\<open>null\<close>.\<close>

fun findColumnValue :: "row \<Rightarrow> string list \<Rightarrow> cell option" where
  "findColumnValue [] possibleNames = None"
| "findColumnValue ((key, v) # r) possibleNames =
     (if list_ex (\<lambda>name. trim (toLowerCase key) = toLowerCase name) possibleNames then Some v
      else findColumnValue r possibleNames)"

text \<open>\<^verbatim>\<open>/^([A-Z]{2,4}\s*\d{3}[A-Z]?)\s*[-]\s*(.+)$/i\<close>\<close>

definition courseRe :: regex where
  "courseRe =
     Seqs [Bol,
           Grp 1 (Seqs [Rep 2 (Some 4) (Cls [Rng CHR ''A'' CHR ''Z'']), Star space,
                        Rep 3 (Some 3) digit, Opt (Cls [Rng CHR ''A'' CHR ''Z''])]),
           Star space, Cls [Ch CHR ''-''], Star space,
           Grp 2 (Plus (NCls [Ch CHR 0x0A, Ch CHR 0x0D])), Eol]"

definition parseCourseTitle :: "cell \<Rightarrow> error + (string \<times> string)" where
  "parseCourseTitle title =
     (case title of
        CNum n \<Rightarrow> if n = 0 then Inr (''Unknown'', []) else Inl TypeError
      | CStr s \<Rightarrow>
          if s = [] then Inr (''Unknown'', [])
          else (case jsMatch True courseRe s of
                  Some m \<Rightarrow> Inr (toUpperCase (trim (grp m 1)), trim (grp m 2))
                | None \<Rightarrow> Inr (take 20 s, s)))"

text \<open>
  A meeting event: a pattern together with the course data of its row. The columns that
  are copied unread keep their cells; \<open>sectionId\<close> is the field \<^verbatim>\<open>section\<close>.
\<close>

record event =
  courseCode :: string
  courseTitle :: string
  sectionId :: cell
  format :: cell
  deliveryMode :: cell
  instructor :: cell
  days :: "daycode list"
  startTime :: "clock option"
  endTime :: "clock option"
  startDate :: "cdate option"
  endDate :: "cdate option"
  location :: string
  raw :: cell

text \<open>The parsers of the explicit columns applied to a truthy cell: a number has none of
  the text methods they call.\<close>

definition parseDateCell :: "int \<Rightarrow> cell \<Rightarrow> error + cdate option" where
  "parseDateCell currentYear c = (case c of CStr s \<Rightarrow> Inr (parseDate currentYear s) | CNum n \<Rightarrow> Inl TypeError)"

definition normalizeTimeCell :: "cell \<Rightarrow> error + clock option" where
  "normalizeTimeCell c = (case c of CStr s \<Rightarrow> Inr (normalizeTime s) | CNum n \<Rightarrow> Inl TypeError)"

definition parseDaysCell :: "cell \<Rightarrow> error + daycode list" where
  "parseDaysCell c = (case c of CStr s \<Rightarrow> Inr (parseDays s) | CNum n \<Rightarrow> Inl TypeError)"

text \<open>\<^verbatim>\<open>(a && b) ? {x: f(a), y: f(b)} : null\<close>, with \<open>f\<close> possibly throwing.\<close>

definition bothCells :: "(cell \<Rightarrow> error + 'a) \<Rightarrow> cell option \<Rightarrow> cell option \<Rightarrow> error + ('a \<times> 'a) option" where
  "bothCells f a b =
     (case (a, b) of
        (Some x, Some y) \<Rightarrow>
          if truthy x \<and> truthy y
          then (case f x of
                  Inl e \<Rightarrow> Inl e
                | Inr u \<Rightarrow> (case f y of Inl e \<Rightarrow> Inl e | Inr v \<Rightarrow> Inr (Some (u, v))))
          else Inr None
      | _ \<Rightarrow> Inr None)"

text \<open>An object or an array, as opposed to \<^verbatim>\<open>null\<close>, is truthy.\<close>

definition present :: "'a option \<Rightarrow> bool" where
  "present v = (v \<noteq> None)"

definition orElse :: "'a option \<Rightarrow> 'a option \<Rightarrow> 'a option" where
  "orElse a b = (case a of Some x \<Rightarrow> Some x | None \<Rightarrow> b)"

text \<open>The test that sends \<open>parseRow\<close> to the patterns built from the explicit columns
  alone.\<close>

definition explicitOnly :: "pattern list \<Rightarrow> bool" where
  "explicitOnly patterns =
     (length patterns = 0 \<or> (length patterns = 1 \<and> p_error (hd patterns)))"

definition reconcile ::
  "cell \<Rightarrow> daycode list option \<Rightarrow> (cdate option \<times> cdate option) option
     \<Rightarrow> (clock option \<times> clock option) option \<Rightarrow> pattern list \<Rightarrow> pattern list" where
  "reconcile meetingPatterns globalDays globalDates globalTimes patterns =
     (if explicitOnly patterns then
        (if present globalDays \<or> present globalDates \<or> present globalTimes then
           [\<lparr>p_days = (case globalDays of
                         Some d \<Rightarrow> d
                       | None \<Rightarrow> (case patterns of p # ps \<Rightarrow> p_days p | [] \<Rightarrow> [])),
             p_startTime = orElse (Option.bind globalTimes fst)
                                  (case patterns of p # ps \<Rightarrow> p_startTime p | [] \<Rightarrow> None),
             p_endTime = orElse (Option.bind globalTimes snd)
                                (case patterns of p # ps \<Rightarrow> p_endTime p | [] \<Rightarrow> None),
             p_startDate = orElse (Option.bind globalDates fst)
                                  (case patterns of p # ps \<Rightarrow> p_startDate p | [] \<Rightarrow> None),
             p_endDate = orElse (Option.bind globalDates snd)
                                (case patterns of p # ps \<Rightarrow> p_endDate p | [] \<Rightarrow> None),
             p_location = (case patterns of p # ps \<Rightarrow> p_location p | [] \<Rightarrow> []),
             p_raw = meetingPatterns, p_error = False\<rparr>]
         else patterns)
      else
        map (\<lambda>p. p\<lparr>p_startDate := orElse (p_startDate p) (Option.bind globalDates fst),
                     p_endDate := orElse (p_endDate p) (Option.bind globalDates snd),
                     p_startTime := orElse (p_startTime p) (Option.bind globalTimes fst),
                     p_endTime := orElse (p_endTime p) (Option.bind globalTimes snd),
                     p_days := (if 0 < length (p_days p) then p_days p
                                else (case globalDays of Some d \<Rightarrow> d | None \<Rightarrow> []))\<rparr>)
            patterns)"

definition parseRow :: "int \<Rightarrow> row \<Rightarrow> error + event list" where
  "parseRow currentYear r =
     (let courseListing = cellOr r ''Course Listing'';
          sectionC = cellOr r ''Section'';
          instructionalFormat = cellOr r ''Instructional Format'';
          deliveryModeC = cellOr r ''Delivery Mode'';
          meetingPatterns = cellOr r ''Meeting Patterns'';
          instructorC = cellOr r ''Instructor'';
          explicitStartDate = findColumnValue r [''Start Date'', ''Meeting Start Date'', ''First Meeting Date''];
          explicitEndDate = findColumnValue r [''End Date'', ''Meeting End Date'', ''Last Meeting Date''];
          explicitStartTime = findColumnValue r [''Start Time'', ''Meeting Start Time''];
          explicitEndTime = findColumnValue r [''End Time'', ''Meeting End Time''];
          explicitDays = findColumnValue r [''Days'', ''Meeting Days'', ''Day Pattern'']
      in case bothCells (parseDateCell currentYear) explicitStartDate explicitEndDate of
           Inl e \<Rightarrow> Inl e
         | Inr globalDates \<Rightarrow>
        (case bothCells normalizeTimeCell explicitStartTime explicitEndTime of
           Inl e \<Rightarrow> Inl e
         | Inr globalTimes \<Rightarrow>
        (case (case explicitDays of
                 Some c \<Rightarrow> if truthy c then map_sum id Some (parseDaysCell c) else Inr None
               | None \<Rightarrow> Inr None) of
           Inl e \<Rightarrow> Inl e
         | Inr globalDays \<Rightarrow>
        (case parseCourseTitle courseListing of
           Inl e \<Rightarrow> Inl e
         | Inr (code, title) \<Rightarrow>
             Inr (map (\<lambda>p. \<lparr>courseCode = code, courseTitle = title, sectionId = sectionC,
                              format = instructionalFormat, deliveryMode = deliveryModeC,
                              instructor = instructorC, days = p_days p,
                              startTime = p_startTime p, endTime = p_endTime p,
                              startDate = p_startDate p, endDate = p_endDate p,
                              location = p_location p,
                              raw = (if truthy (p_raw p) then p_raw p else meetingPatterns)\<rparr>)
                      (reconcile meetingPatterns globalDays globalDates globalTimes
                         (parseMeetingPatterns currentYear meetingPatterns)))))))"

text \<open>\<open>filterDataRows\<close>: a row whose course listing is a text containing
  \<^verbatim>\<open>course listing\<close> is a repeated header; a row of empty texts only is dropped.\<close>

definition keepRow :: "row \<Rightarrow> bool" where
  "keepRow r =
     (case cellOr r ''Course Listing'' of
        CStr s \<Rightarrow> if includesStr (toLowerCase s) ''course listing'' then False
                  else list_ex (\<lambda>(k, v). v \<noteq> CStr []) r
      | CNum n \<Rightarrow> list_ex (\<lambda>(k, v). v \<noteq> CStr []) r)"

definition filterDataRows :: "row list \<Rightarrow> row list" where
  "filterDataRows rows = filter keepRow rows"

text \<open>The loop of \<open>parse\<close> over the data rows: the events of a row are appended, an
  exception of a row is caught and recorded (the engine's wording of the message is not
  modelled), and the loop goes on.\<close>

record parsed =
  events :: "event list"
  errors :: "string list"

fun parseLoop :: "int \<Rightarrow> row list \<Rightarrow> parsed \<Rightarrow> parsed" where
  "parseLoop currentYear [] acc = acc"
| "parseLoop currentYear (r # rs) acc =
     parseLoop currentYear rs
       (case parseRow currentYear r of
          Inr rowEvents \<Rightarrow> acc\<lparr>events := events acc @ rowEvents\<rparr>
        | Inl e \<Rightarrow> acc\<lparr>errors := errors acc @ [''Error parsing row: TypeError'']\<rparr>)"

text \<open>\<open>parse\<close> from the rows that the sheet decoder returns.\<close>

definition parse :: "int \<Rightarrow> row list \<Rightarrow> parsed" where
  "parse currentYear rows =
     (if length rows = 0 then \<lparr>events = [], errors = [''No data found in the spreadsheet'']\<rparr>
      else parseLoop currentYear (filterDataRows rows) \<lparr>events = [], errors = []\<rparr>)"


section \<open>The recurring-event encoder (icsGenerator.js)\<close>

definition padStart2 :: "string \<Rightarrow> string" where
  "padStart2 s = replicate (2 - length s) CHR ''0'' @ s"

text \<open>\<open>formatDateTime\<close>, as in \<^verbatim>\<open>20240903T100000\<close>.\<close>

definition formatDateTime :: "cdate \<Rightarrow> clock \<Rightarrow> string" where
  "formatDateTime date time =
     showInt (year date) @ padStart2 (showInt (month date)) @ padStart2 (showInt (day date))
       @ ''T'' @ padStart2 (showInt (hours time)) @ padStart2 (showInt (minutes time)) @ ''00''"

text \<open>\<open>formatUntilDate\<close> reads the fields of the end date; on \<^verbatim>\<open>null\<close> or
  \<^verbatim>\<open>undefined\<close> that is a \<open>TypeError\<close>.\<close>

definition formatUntilDate :: "cdate option \<Rightarrow> clock option \<Rightarrow> error + string" where
  "formatUntilDate endDateV endTimeV =
     (case endDateV of
        None \<Rightarrow> Inl TypeError
      | Some d \<Rightarrow> Inr (showInt (year d) @ padStart2 (showInt (month d))
                         @ padStart2 (showInt (day d)) @ ''T235959Z''))"

text \<open>\<open>formatTimestamp(new Date())\<close>: the UTC fields of the time \<open>now\<close>, in milliseconds
  from the epoch.\<close>

definition formatTimestamp :: "int \<Rightarrow> string" where
  "formatTimestamp now =
     (let dn = now div 86400000; ms = now mod 86400000
      in showInt (yearFromDay dn) @ padStart2 (showInt (monthFromDay dn + 1))
           @ padStart2 (showInt (dateFromDay dn)) @ ''T''
           @ padStart2 (showInt (ms div 3600000)) @ padStart2 (showInt (ms div 60000 mod 60))
           @ padStart2 (showInt (ms div 1000 mod 60)) @ ''Z'')"

text \<open>\<^verbatim>\<open>ToInt32\<close>: the value modulo \<open>2^32\<close> in the signed range.\<close>

definition toInt32 :: "int \<Rightarrow> int" where
  "toInt32 x = (x + 2147483648) mod 4294967296 - 2147483648"

text \<open>The loop of \<open>simpleHash\<close>: \<^verbatim>\<open>hash = ((hash << 5) - hash) + char; hash = hash & hash\<close>.
  The shift and the conjunction give 32-bit integers, the subtraction and the addition
  between them are exact.\<close>

fun hashLoop :: "int \<Rightarrow> string \<Rightarrow> int" where
  "hashLoop hash [] = hash"
| "hashLoop hash (c # cs) = hashLoop (toInt32 (toInt32 (hash * 32) - hash + of_char c)) cs"

definition hexChar :: "int \<Rightarrow> char" where
  "hexChar d = (if d < 10 then char_of (48 + d) else char_of (87 + d))"

function showHex :: "int \<Rightarrow> string" where
  "showHex n = (if n < 16 then [hexChar n] else showHex (n div 16) @ [hexChar (n mod 16)])"
  by pat_completeness auto
termination
  by (relation "measure nat") auto

definition simpleHash :: "string \<Rightarrow> string" where
  "simpleHash str = showHex \<bar>hashLoop 0 str\<bar>"

fun dayName :: "daycode \<Rightarrow> string" where
  "dayName SU = ''SU''"
| "dayName MO = ''MO''"
| "dayName TU = ''TU''"
| "dayName WE = ''WE''"
| "dayName TH = ''TH''"
| "dayName FR = ''FR''"
| "dayName SA = ''SA''"

text \<open>\<^verbatim>\<open>${v?.hours}${v?.minutes}\<close>: an absent time prints as \<^verbatim>\<open>undefined\<close> twice.\<close>

definition timeDigits :: "clock option \<Rightarrow> string" where
  "timeDigits t = (case t of Some c \<Rightarrow> showInt (hours c) @ showInt (minutes c)
                   | None \<Rightarrow> ''undefinedundefined'')"

definition generateUID :: "event \<Rightarrow> string" where
  "generateUID ev =
     simpleHash (courseCode ev @ ''-'' @ cellText (sectionId ev) @ ''-''
                 @ concat (map dayName (days ev)) @ ''-'' @ timeDigits (startTime ev))
       @ ''@ubc-workday-calendar''"

definition bslash :: char where
  "bslash = CHR 0x5C"

definition escapeText :: "string \<Rightarrow> string" where
  "escapeText text' =
     jsReplaceAll False (Lit newline) [bslash, CHR ''n'']
       (jsReplaceAll False (Lit '','') [bslash, CHR '','']
          (jsReplaceAll False (Lit '';'') [bslash, CHR '';'']
             (jsReplaceAll False (Lit [bslash]) [bslash, bslash] text')))"

fun dayToNum :: "daycode \<Rightarrow> int" where
  "dayToNum SU = 0"
| "dayToNum MO = 1"
| "dayToNum TU = 2"
| "dayToNum WE = 3"
| "dayToNum TH = 4"
| "dayToNum FR = 5"
| "dayToNum SA = 6"

text \<open>
  The loop of \<open>findFirstOccurrence\<close>, from offset \<open>i\<close> with \<open>k\<close> rounds left: the date
  \<open>i\<close> days after \<open>date\<close> is returned when its week day is a target. \<open>None\<close> is the exit
  of the loop without a return. The week day of an invalid Date is NaN and is no target.
\<close>

fun scanDays :: "jsdate \<Rightarrow> int list \<Rightarrow> int \<Rightarrow> nat \<Rightarrow> cdate option" where
  "scanDays date targetDays i 0 = None"
| "scanDays date targetDays i (Suc k) =
     (case plusDays date i of
        Some n \<Rightarrow> if List.member targetDays (weekDay n) then Some (dateOfDay n)
                  else scanDays date targetDays (i + 1) k
      | None \<Rightarrow> scanDays date targetDays (i + 1) k)"

definition findFirstOccurrence :: "cdate \<Rightarrow> daycode list \<Rightarrow> cdate option" where
  "findFirstOccurrence startDateV daysV =
     (let targetDays = map dayToNum daysV in
      if length targetDays = 0 then None
      else (case scanDays (newDate (year startDateV) (month startDateV - 1) (day startDateV))
                   targetDays 0 7 of
              Some found \<Rightarrow> Some found
            | None \<Rightarrow> Some startDateV))"

text \<open>The lines of one VEVENT. \<open>Inr None\<close> is the return of \<^verbatim>\<open>null\<close>, \<open>Inl\<close> an
  exception; \<open>now\<close> is the reading of the system clock for the stamp.\<close>

definition summaryOf :: "event \<Rightarrow> string" where
  "summaryOf ev =
     courseCode ev
       @ (if truthy (sectionId ev) then '' ('' @ cellText (sectionId ev) @ '')'' else [])
       @ (if truthy (format ev) then '' - '' @ cellText (format ev) else [])"

definition descriptionOf :: "event \<Rightarrow> string" where
  "descriptionOf ev =
     joinWith [bslash, CHR ''n'']
       ((if courseTitle ev \<noteq> [] then [courseTitle ev] else [])
        @ (if truthy (instructor ev) then [''Instructor: '' @ cellText (instructor ev)] else [])
        @ (if truthy (deliveryMode ev) then [''Mode: '' @ cellText (deliveryMode ev)] else []))"

definition generateEventLines :: "int \<Rightarrow> event \<Rightarrow> error + string list option" where
  "generateEventLines now ev =
     (case (startDate ev, startTime ev, endTime ev) of
        (Some sd, Some st, Some et) \<Rightarrow>
          if length (days ev) = 0 then Inr None
          else (case findFirstOccurrence sd (days ev) of
                  None \<Rightarrow> Inr None
                | Some firstDate \<Rightarrow>
                    (case formatUntilDate (endDate ev) (endTime ev) of
                       Inl e \<Rightarrow> Inl e
                     | Inr until \<Rightarrow>
                         Inr (Some
                           ([''BEGIN:VEVENT'',
                             ''UID:'' @ generateUID ev,
                             ''DTSTAMP:'' @ formatTimestamp now,
                             ''DTSTART;TZID=America/Vancouver:'' @ formatDateTime firstDate st,
                             ''DTEND;TZID=America/Vancouver:'' @ formatDateTime firstDate et,
                             ''RRULE:'' @ ''FREQ=WEEKLY;BYDAY='' @ joinWith '','' (map dayName (days ev))
                               @ '';UNTIL='' @ until,
                             ''SUMMARY:'' @ escapeText (summaryOf ev)]
                            @ (if location ev \<noteq> [] then [''LOCATION:'' @ escapeText (location ev)] else [])
                            @ (if descriptionOf ev \<noteq> []
                               then [''DESCRIPTION:'' @ escapeText (descriptionOf ev)] else [])
                            @ [''END:VEVENT'']))))
      | _ \<Rightarrow> Inr None)"

definition generateEvent :: "int \<Rightarrow> event \<Rightarrow> error + string option" where
  "generateEvent now ev = map_sum id (map_option (joinWith crlf)) (generateEventLines now ev)"

definition generateTimezone :: string where
  "generateTimezone =
     joinWith newline
       [''BEGIN:VTIMEZONE'', ''TZID:America/Vancouver'', ''BEGIN:DAYLIGHT'', ''TZOFFSETFROM:-0800'',
        ''TZOFFSETTO:-0700'', ''TZNAME:PDT'', ''DTSTART:19700308T020000'',
        ''RRULE:FREQ=YEARLY;BYMONTH=3;BYDAY=2SU'', ''END:DAYLIGHT'', ''BEGIN:STANDARD'',
        ''TZOFFSETFROM:-0700'', ''TZOFFSETTO:-0800'', ''TZNAME:PST'', ''DTSTART:19701101T020000'',
        ''RRULE:FREQ=YEARLY;BYMONTH=11;BYDAY=1SU'', ''END:STANDARD'', ''END:VTIMEZONE'']"

text \<open>The loop of \<open>generate\<close> over the events; \<open>clock i\<close> is the system time at event
  number \<open>i\<close>. An exception of \<open>generateEvent\<close> is not caught and ends \<open>generate\<close>.\<close>

fun generateLoop :: "(nat \<Rightarrow> int) \<Rightarrow> nat \<Rightarrow> event list \<Rightarrow> string list \<Rightarrow> error + string list" where
  "generateLoop clock i [] lines = Inr lines"
| "generateLoop clock i (ev # evs) lines =
     (case generateEvent (clock i) ev of
        Inl e \<Rightarrow> Inl e
      | Inr None \<Rightarrow> generateLoop clock (i + 1) evs lines
      | Inr (Some vevent) \<Rightarrow> generateLoop clock (i + 1) evs (lines @ [vevent]))"

definition generate :: "(nat \<Rightarrow> int) \<Rightarrow> event list \<Rightarrow> error + string" where
  "generate clock evs =
     (case generateLoop clock 0 evs
             [''BEGIN:VCALENDAR'', ''VERSION:2.0'', ''PRODID:-//UBC Workday to Calendar//EN'',
              ''CALSCALE:GREGORIAN'', ''METHOD:PUBLISH'', ''X-WR-CALNAME:UBC Class Schedule'',
              ''X-WR-TIMEZONE:America/Vancouver'', generateTimezone] of
        Inl e \<Rightarrow> Inl e
      | Inr lines \<Rightarrow> Inr (joinWith crlf (lines @ [''END:VCALENDAR''])))"


section \<open>Sample inputs\<close>

text \<open>The block of the specification's example.\<close>

definition sampleBlock :: string where
  "sampleBlock = ''Mon Wed | 10:00 - 11:00 | 2024-09-03 - 2024-12-05 | Room 200''"

text \<open>A row whose date range has a start the date normalizer reads and an end it does
  not.\<close>

definition rowNoEnd :: row where
  "rowNoEnd =
     [(''Course Listing'', CStr ''CPSC 110 - Computation''),
      (''Section'', CStr ''101''),
      (''Meeting Patterns'', CStr ''Mon | 10:00 - 11:00 | 2024-09-03 - Xyz 5'')]"

definition eventNoEnd :: event where
  "eventNoEnd =
     \<lparr>courseCode = ''CPSC 110'', courseTitle = ''Computation'', sectionId = CStr ''101'',
      format = CStr [], deliveryMode = CStr [], instructor = CStr [], days = [MO],
      startTime = Some \<lparr>hours = 10, minutes = 0\<rparr>, endTime = Some \<lparr>hours = 11, minutes = 0\<rparr>,
      startDate = Some \<lparr>year = 2024, month = 9, day = 3\<rparr>, endDate = None,
      location = [], raw = CStr ''Mon | 10:00 - 11:00 | 2024-09-03 - Xyz 5''\<rparr>"

text \<open>The fields of a pipe-delimited block as the specification lists them: days, time
  range, optional date range, optional location.\<close>

definition pipeParts :: "string \<Rightarrow> string list" where
  "pipeParts s = map trim (splitOn CHR ''|'' s)"

definition pipeFields :: "int \<Rightarrow> string list \<Rightarrow> pattern" where
  "pipeFields currentYear parts =
     \<lparr>p_days = parseDays (parts ! 0),
      p_startTime = fst (parseTimeRange (parts ! 1)),
      p_endTime = snd (parseTimeRange (parts ! 1)),
      p_startDate = (if 2 < length parts then fst (parseDateRange currentYear (parts ! 2)) else None),
      p_endDate = (if 2 < length parts then snd (parseDateRange currentYear (parts ! 2)) else None),
      p_location = (if 3 < length parts then parts ! 3 else []),
      p_raw = CStr [], p_error = False\<rparr>"




definition eventGood :: event where
  "eventGood =
     \<lparr>courseCode = ''CPSC 110'', courseTitle = ''Computation'', sectionId = CStr ''101'',
      format = CStr ''Lecture'', deliveryMode = CStr [], instructor = CStr [], days = [MO, WE],
      startTime = Some \<lparr>hours = 10, minutes = 0\<rparr>, endTime = Some \<lparr>hours = 11, minutes = 0\<rparr>,
      startDate = Some \<lparr>year = 2024, month = 9, day = 3\<rparr>,
      endDate = Some \<lparr>year = 2024, month = 12, day = 5\<rparr>,
      location = ''Room 200'',
      raw = CStr ''Mon Wed | 10:00 - 11:00 | 2024-09-03 - 2024-12-05 | Room 200''\<rparr>"




section \<open>Properties of the day-token mapper\<close>

lemma daysLoop_distinct: "distinct acc \<Longrightarrow> distinct (daysLoop acc tokens)"
  by (induction tokens arbitrary: acc) (auto split: option.splits)

lemma daysLoop_snoc:
  "daysLoop acc (tokens @ [t]) =
     (case lookupDay dayMap t of
        None \<Rightarrow> daysLoop acc tokens
      | Some v \<Rightarrow> if v \<in> set (daysLoop acc tokens) then daysLoop acc tokens
                  else daysLoop acc tokens @ [v])"
  by (induction tokens arbitrary: acc) (auto split: option.splits)

lemma firstSeen_snoc:
  "firstSeen (xs @ [x]) = (if x \<in> set xs then firstSeen xs else firstSeen xs @ [x])"
  by (simp add: firstSeen_def)

lemma set_firstSeen: "set (firstSeen xs) = set xs"
  by (simp add: firstSeen_def)

lemma daysLoop_firstSeen:
  "daysLoop [] tokens = firstSeen (List.map_filter (lookupDay dayMap) tokens)"
proof (induction tokens rule: rev_induct)
  case Nil
  show ?case by (simp add: firstSeen_def List.map_filter_simps)
next
  case (snoc t tokens)
  show ?case
  proof (cases "lookupDay dayMap t")
    case None
    then show ?thesis
      using snoc by (simp add: daysLoop_snoc List.map_filter_def)
  next
    case (Some v)
    then have "List.map_filter (lookupDay dayMap) (tokens @ [t])
                 = List.map_filter (lookupDay dayMap) tokens @ [v]"
      by (simp add: List.map_filter_def)
    then show ?thesis
      using snoc Some by (simp add: daysLoop_snoc firstSeen_snoc set_firstSeen)
  qed
qed

text \<open>
  Claim C8. For every input text the list returned by \<open>parseDays\<close> has no duplicate
  code, and it is the first-seen reading of the codes of its tokens: the tokens of the
  normalised text are looked up one by one, a token without an entry contributes nothing
  (there is no error value: the function is total), and every code stands at the place of
  its first occurrence. In particular \<open>parseDays "Mon, Wed, Mon" = [MO, WE]\<close>.
\<close>

theorem parseDays_distinct_first_seen:
  "distinct (parseDays s)
   \<and> parseDays s = (if s = [] then []
                    else firstSeen (List.map_filter (lookupDay dayMap) (dayTokens s)))
   \<and> parseDays ''Mon, Wed, Mon'' = [MO, WE]"
proof -
  have d: "distinct (parseDays s)"
    by (simp add: parseDays_def daysLoop_distinct)
  have f: "parseDays s = (if s = [] then []
                          else firstSeen (List.map_filter (lookupDay dayMap) (dayTokens s)))"
    by (simp add: parseDays_def daysLoop_firstSeen)
  have e: "parseDays ''Mon, Wed, Mon'' = [MO, WE]"
    by code_simp
  from d f e show ?thesis by blast
qed

text \<open>
  Claim C2. The table is searched in the order of its entries and the first key that the
  token equals, or that a token of more than one character starts with, decides. The
  one-letter keys \<open>t\<close> and \<open>s\<close> stand before the longer keys of Thursday and Sunday, so
  every spelling of Thursday is read as Tuesday and every spelling of Sunday as Saturday;
  only the single letters \<open>R\<close> and \<open>S\<close> get the code the table gives them.
\<close>

theorem parseDays_thursday_sunday_shadowed:
  "parseDays ''Thursday'' = [TU] \<and> parseDays ''Thurs'' = [TU]
   \<and> parseDays ''Thu'' = [TU] \<and> parseDays ''Th'' = [TU]
   \<and> parseDays ''Su'' = [SA] \<and> parseDays ''Sun'' = [SA] \<and> parseDays ''Sunday'' = [SA]
   \<and> parseDays ''R'' = [TH] \<and> parseDays ''S'' = [SA]"
  by code_simp


section \<open>Properties of the time normalizer\<close>

text \<open>
  Claim C5. The four examples of the specification hold. A time written as an hour with
  a marker and no minutes, which the time-range pattern of \<open>parseTimeRange\<close> accepts as
  one side of a range, is not normalized: the text has no colon, so \<^verbatim>\<open>:00\<close> is appended
  behind the marker (\<^verbatim>\<open>9 PM:00\<close>) and the hour:minute pattern finds nothing. The result is
  \<open>None\<close> where the conversion rule gives 21:00, and a range of two such times loses both
  ends.
\<close>

theorem normalizeTime_hour_with_marker:
  "normalizeTime ''9 PM'' = None \<and> normalizeTime ''9 AM'' = None
   \<and> normalizeTime ''2:00 PM'' = Some \<lparr>hours = 14, minutes = 0\<rparr>
   \<and> normalizeTime ''12:00 AM'' = Some \<lparr>hours = 0, minutes = 0\<rparr>
   \<and> normalizeTime ''12:30 PM'' = Some \<lparr>hours = 12, minutes = 30\<rparr>
   \<and> normalizeTime ''9'' = Some \<lparr>hours = 9, minutes = 0\<rparr>
   \<and> parseTimeRange ''9 AM - 10 AM'' = (None, None)"
  by code_simp


section \<open>Properties of the pattern extractor\<close>

lemma splitOn_nonempty: "splitOn c s \<noteq> []"
  by (induction s) (auto split: list.splits)

lemma splitOn_two: "c \<in> set s \<Longrightarrow> 2 \<le> length (splitOn c s)"
proof (induction s)
  case Nil
  then show ?case by simp
next
  case (Cons a s)
  show ?case
  proof (cases "a = c")
    case True
    then show ?thesis
      using splitOn_nonempty [of c s] by (cases "splitOn c s") simp_all
  next
    case False
    with Cons have "2 \<le> length (splitOn c s)" by simp
    with False show ?thesis
      by (cases "splitOn c s") simp_all
  qed
qed

lemma strictPattern_iff:
  "(strictPattern cy s \<noteq> None) = (List.member s CHR ''|'' \<and> parseDays (pipeParts s ! 0) \<noteq> [])"
  using splitOn_two [of "CHR ''|''" s]
  by (auto simp: strictPattern_def pipeParts_def Let_def)

lemma strictPattern_fields:
  "strictPattern cy s = Some p \<Longrightarrow> p = pipeFields cy (pipeParts s)"
  by (auto simp: strictPattern_def pipeParts_def pipeFields_def Let_def split: if_splits)

lemma sample_strict: "strictPattern cy sampleBlock \<noteq> None"
  unfolding sampleBlock_def by code_simp

lemma sample_fields:
  "pipeFields cy (pipeParts sampleBlock) =
     \<lparr>p_days = [MO, WE],
      p_startTime = Some \<lparr>hours = 10, minutes = 0\<rparr>, p_endTime = Some \<lparr>hours = 11, minutes = 0\<rparr>,
      p_startDate = Some \<lparr>year = 2024, month = 9, day = 3\<rparr>,
      p_endDate = Some \<lparr>year = 2024, month = 12, day = 5\<rparr>,
      p_location = ''Room 200'', p_raw = CStr [], p_error = False\<rparr>"
  unfolding sampleBlock_def by code_simp

text \<open>
  Claim C4. The strict attempt of \<open>parseSinglePattern\<close> succeeds exactly when the block
  contains a pipe and its first field, read by \<open>parseDays\<close>, yields at least one day code;
  then the result is the pattern of the fields split at the pipes (days, time range,
  optional date range, optional location), each read by its own normalizer, and otherwise
  the result is that of the regex extractor. The sample block of the specification yields
  days MO and WE, 10:00 to 11:00, 2024-09-03 to 2024-12-05, location \<open>Room 200\<close>.
\<close>

theorem parseSinglePattern_pipe_fields:
  "(strictPattern cy s \<noteq> None) =
     (List.member s CHR ''|'' \<and> parseDays (pipeParts s ! 0) \<noteq> [])
   \<and> (strictPattern cy s \<noteq> None \<longrightarrow>
        parseSinglePattern cy s = Some (pipeFields cy (pipeParts s)))
   \<and> (strictPattern cy s = None \<longrightarrow>
        parseSinglePattern cy s = Some (parsePatternWithRegex cy s))
   \<and> parseSinglePattern cy sampleBlock =
        Some \<lparr>p_days = [MO, WE],
              p_startTime = Some \<lparr>hours = 10, minutes = 0\<rparr>,
              p_endTime = Some \<lparr>hours = 11, minutes = 0\<rparr>,
              p_startDate = Some \<lparr>year = 2024, month = 9, day = 3\<rparr>,
              p_endDate = Some \<lparr>year = 2024, month = 12, day = 5\<rparr>,
              p_location = ''Room 200'', p_raw = CStr [], p_error = False\<rparr>"
proof -
  have a: "strictPattern cy s \<noteq> None \<longrightarrow>
        parseSinglePattern cy s = Some (pipeFields cy (pipeParts s))" for cy s
    using strictPattern_fields [of cy s] by (auto simp: parseSinglePattern_def)
  have b: "strictPattern cy s = None \<longrightarrow>
        parseSinglePattern cy s = Some (parsePatternWithRegex cy s)"
    by (simp add: parseSinglePattern_def)
  have c: "parseSinglePattern cy sampleBlock = Some (pipeFields cy (pipeParts sampleBlock))"
    using a [of cy sampleBlock] sample_strict [of cy] by blast
  show ?thesis
    using strictPattern_iff [of cy s] a [of cy s] b c sample_fields [of cy] by simp
qed

theorem parseSinglePattern_pipe_fields_witness:
  "strictPattern 2024 sampleBlock \<noteq> None
   \<and> parseSinglePattern 2024 sampleBlock = Some (pipeFields 2024 (pipeParts sampleBlock))"
proof -
  have s: "strictPattern 2024 sampleBlock \<noteq> None"
    by (rule sample_strict)
  have "strictPattern 2024 sampleBlock \<noteq> None \<longrightarrow>
        parseSinglePattern 2024 sampleBlock = Some (pipeFields 2024 (pipeParts sampleBlock))"
    using parseSinglePattern_pipe_fields [of 2024 sampleBlock] by blast
  with s show ?thesis by blast
qed

lemma strictPattern_no_error: "strictPattern cy s = Some p \<Longrightarrow> \<not> p_error p"
  by (auto simp: strictPattern_def Let_def split: if_splits)

lemma parseSinglePattern_no_error: "parseSinglePattern cy s = Some p \<Longrightarrow> \<not> p_error p"
  by (auto simp: parseSinglePattern_def parsePatternWithRegex_def Let_def
        dest: strictPattern_no_error split: option.splits)

lemma parseSinglePattern_Some: "parseSinglePattern cy s \<noteq> None"
  by (simp add: parseSinglePattern_def split: option.splits)

lemma block_pattern_no_error:
  "\<not> p_error (case parseSinglePattern cy block of
                   Some q \<Rightarrow> q\<lparr>p_raw := CStr block\<rparr>
                 | None \<Rightarrow> errorPattern block)"
proof (cases "parseSinglePattern cy block")
  case None
  then show ?thesis using parseSinglePattern_Some by blast
next
  case (Some q)
  then show ?thesis using parseSinglePattern_no_error [of cy block q] by simp
qed

lemma parseMeetingPatterns_no_error: "p \<in> set (parseMeetingPatterns cy c) \<Longrightarrow> \<not> p_error p"
proof (cases c)
  case (CNum n)
  assume "p \<in> set (parseMeetingPatterns cy c)"
  with CNum show ?thesis by (simp add: parseMeetingPatterns_def)
next
  case (CStr s)
  assume "p \<in> set (parseMeetingPatterns cy c)"
  with CStr obtain block where
    "p = (case parseSinglePattern cy block of
            Some q \<Rightarrow> q\<lparr>p_raw := CStr block\<rparr>
          | None \<Rightarrow> errorPattern block)"
    by (auto simp: parseMeetingPatterns_def split: if_splits)
  then show ?thesis using block_pattern_no_error by simp
qed

lemma explicitOnly_iff: "explicitOnly (parseMeetingPatterns cy c) = (parseMeetingPatterns cy c = [])"
proof (cases "parseMeetingPatterns cy c")
  case Nil
  then show ?thesis by (simp add: explicitOnly_def)
next
  case (Cons p ps)
  then have "\<not> p_error p"
    using parseMeetingPatterns_no_error [of p cy c] by simp
  with Cons show ?thesis by (simp add: explicitOnly_def)
qed

lemma parseMeetingPatterns_empty:
  "(parseMeetingPatterns cy c = []) =
     (case c of CNum n \<Rightarrow> True | CStr s \<Rightarrow> s = [] \<or> trim s = [] \<or> patternBlocks s = [])"
  by (auto simp: parseMeetingPatterns_def split: cell.splits)

text \<open>
  Claim C10. \<open>parseSinglePattern\<close> returns a pattern for every block, never \<^verbatim>\<open>null\<close>: the
  regex extractor always builds a record. So no pattern that \<open>parseMeetingPatterns\<close>
  returns carries the error flag, whatever the cell, and the test that sends \<open>parseRow\<close>
  to the pattern built from the explicit columns alone holds exactly when the cell gives
  no pattern at all, that is when it gives no block: the cell is a number, is empty or
  blank, or has no non-empty block.
\<close>

theorem parseSinglePattern_never_null:
  "parseSinglePattern cy block \<noteq> None
   \<and> list_ex p_error (parseMeetingPatterns cy c) = False
   \<and> explicitOnly (parseMeetingPatterns cy c) = (parseMeetingPatterns cy c = [])
   \<and> (parseMeetingPatterns cy c = []) =
       (case c of CNum n \<Rightarrow> True | CStr s \<Rightarrow> s = [] \<or> trim s = [] \<or> patternBlocks s = [])"
proof -
  have "list_ex p_error (parseMeetingPatterns cy c) = False"
    using parseMeetingPatterns_no_error [of _ cy c] by (auto simp: list_ex_iff)
  then show ?thesis
    using parseSinglePattern_Some [of cy block] explicitOnly_iff [of cy c]
      parseMeetingPatterns_empty [of cy c]
    by blast
qed


section \<open>Properties of the encoder\<close>

lemma rowNoEnd_events: "events (parse cy [rowNoEnd]) = [eventNoEnd]"
  unfolding rowNoEnd_def eventNoEnd_def by code_simp

lemma eventNoEnd_throws: "generateEvent now eventNoEnd = Inl TypeError"
  unfolding eventNoEnd_def by code_simp

text \<open>
  Claim C1. \<open>generateEvent\<close> returns \<^verbatim>\<open>null\<close> for an event without start date, start
  time, end time or days, but it does not test the end date: \<open>formatUntilDate\<close> reads the
  fields of \<^verbatim>\<open>event.endDate\<close>, and on an event that has everything but an end date this
  is a \<open>TypeError\<close>, which \<open>generate\<close> does not catch. Such an event comes out of the parser
  for a date range whose start is a date and whose end is not (here
  \<^verbatim>\<open>2024-09-03 - Xyz 5\<close>).
\<close>

theorem generate_throws_without_end_date:
  "events (parse cy [rowNoEnd]) = [eventNoEnd]
   \<and> endDate eventNoEnd = None
   \<and> generateEvent now eventNoEnd = Inl TypeError
   \<and> generate clock (events (parse cy [rowNoEnd])) = Inl TypeError"
proof -
  have "generate clock [eventNoEnd] = Inl TypeError"
    by (simp add: generate_def eventNoEnd_throws)
  then show ?thesis
    using rowNoEnd_events [of cy] eventNoEnd_throws [of now] by (simp add: eventNoEnd_def)
qed

lemma findFirstOccurrence_Some:
  "ds \<noteq> [] \<Longrightarrow> \<exists>fd. findFirstOccurrence sd ds = Some fd"
  by (simp add: findFirstOccurrence_def Let_def split: option.splits)

text \<open>
  Claim C9. For an event with days, start date, start time, end time and end date,
  \<open>generateEvent\<close> returns a text whose lines are fixed by the event, the stamp line
  apart: there is a list \<open>post\<close> of lines such that for every reading \<open>now\<close> of the clock
  the text is \<^verbatim>\<open>BEGIN:VEVENT\<close>, the UID line (a function of the event), the line
  \<^verbatim>\<open>DTSTAMP:\<close> with the stamp of \<open>now\<close>, and \<open>post\<close>, joined by CR LF. Two calls on the
  same event therefore differ in the stamp line at most.
\<close>

theorem generateEvent_stamp_only:
  assumes "days ev \<noteq> []" and "startDate ev = Some sd" and "startTime ev = Some st"
    and "endTime ev = Some et" and "endDate ev = Some ed"
  shows "\<exists>post. \<forall>now. generateEvent now ev =
           Inr (Some (joinWith crlf
             ([''BEGIN:VEVENT'', ''UID:'' @ generateUID ev, ''DTSTAMP:'' @ formatTimestamp now]
              @ post)))"
proof -
  obtain fd where fd: "findFirstOccurrence sd (days ev) = Some fd"
    using assms(1) findFirstOccurrence_Some by blast
  have "\<forall>now. generateEvent now ev =
           Inr (Some (joinWith crlf
             ([''BEGIN:VEVENT'', ''UID:'' @ generateUID ev, ''DTSTAMP:'' @ formatTimestamp now]
              @ ([''DTSTART;TZID=America/Vancouver:'' @ formatDateTime fd st,
                  ''DTEND;TZID=America/Vancouver:'' @ formatDateTime fd et,
                  ''RRULE:'' @ ''FREQ=WEEKLY;BYDAY='' @ joinWith '','' (map dayName (days ev))
                     @ '';UNTIL='' @ (showInt (year ed) @ padStart2 (showInt (month ed))
                         @ padStart2 (showInt (day ed)) @ ''T235959Z''),
                  ''SUMMARY:'' @ escapeText (summaryOf ev)]
                 @ (if location ev \<noteq> [] then [''LOCATION:'' @ escapeText (location ev)] else [])
                 @ (if descriptionOf ev \<noteq> []
                    then [''DESCRIPTION:'' @ escapeText (descriptionOf ev)] else [])
                 @ [''END:VEVENT'']))))"
    using assms fd
    by (simp add: generateEvent_def generateEventLines_def formatUntilDate_def)
  then show ?thesis by blast
qed

theorem generateEvent_stamp_only_witness:
  "days eventGood \<noteq> [] \<and> startDate eventGood = Some \<lparr>year = 2024, month = 9, day = 3\<rparr>
   \<and> endDate eventGood = Some \<lparr>year = 2024, month = 12, day = 5\<rparr>
   \<and> (\<exists>post. \<forall>now. generateEvent now eventGood =
           Inr (Some (joinWith crlf
             ([''BEGIN:VEVENT'', ''UID:'' @ generateUID eventGood,
               ''DTSTAMP:'' @ formatTimestamp now] @ post))))"
proof -
  have h: "days eventGood \<noteq> []"
    "startDate eventGood = Some \<lparr>year = 2024, month = 9, day = 3\<rparr>"
    "startTime eventGood = Some \<lparr>hours = 10, minutes = 0\<rparr>"
    "endTime eventGood = Some \<lparr>hours = 11, minutes = 0\<rparr>"
    "endDate eventGood = Some \<lparr>year = 2024, month = 12, day = 5\<rparr>"
    by (simp_all add: eventGood_def)
  from generateEvent_stamp_only [OF h] h show ?thesis by blast
qed


section \<open>The two-row sheet, end to end\<close>















section \<open>Properties of the date normalizer\<close>

















section \<open>Properties of the calendar arithmetic and of the first occurrence\<close>





























end
